theory Spec2Isabelle
  imports Complex_Main "HOL-Library.Monad_Syntax" "HOL-Library.Signed_Division"
begin

section \<open>Lane keeping system: a shallow embedding of LaneKeepingSystem.cpp\<close>

text \<open>
  The class \<^verbatim>\<open>Xycar::LaneKeepingSystem<PREC>\<close> is instantiated for \<^verbatim>\<open>float\<close> and
  \<^verbatim>\<open>double\<close>. The embedding reads \<^verbatim>\<open>PREC\<close> as \<^typ>\<open>real\<close>: comparisons, \<^verbatim>\<open>std::max\<close>,
  \<^verbatim>\<open>std::min\<close> and \<^verbatim>\<open>std::abs\<close> are exact on floating-point numbers, sums and
  differences are taken without rounding error, and there is no NaN.

  An \<^verbatim>\<open>int32_t\<close> or \<^verbatim>\<open>int\<close> value is an \<^typ>\<open>int\<close>. Where the source computes a signed
  32-bit result that may not fit (signed overflow, or a floating-point value converted to
  \<^verbatim>\<open>int32_t\<close>), C++ gives the program no meaning; the model returns \<open>None\<close> there.
\<close>

subsection \<open>Signed 32-bit arithmetic and conversions\<close>

definition in_int32 :: "int \<Rightarrow> bool" where
  "in_int32 i = (- 2147483648 \<le> i \<and> i \<le> 2147483647)"

definition int32_of :: "int \<Rightarrow> int option" where
  "int32_of i = (if in_int32 i then Some i else None)"

text \<open>\<^verbatim>\<open>a + b\<close> and \<^verbatim>\<open>a - b\<close> on \<^verbatim>\<open>int32_t\<close> operands.\<close>

definition add_int32 :: "int \<Rightarrow> int \<Rightarrow> int option" where
  "add_int32 a b = int32_of (a + b)"

definition sub_int32 :: "int \<Rightarrow> int \<Rightarrow> int option" where
  "sub_int32 a b = int32_of (a - b)"

text \<open>\<^verbatim>\<open>a / 2\<close> on a signed integer: the quotient is rounded towards zero.\<close>

definition half_int32 :: "int \<Rightarrow> int" where
  "half_int32 a = a sdiv 2"

text \<open>The integral part of a real number, towards zero.\<close>

definition trunc :: "real \<Rightarrow> int" where
  "trunc x = (if 0 \<le> x then \<lfloor>x\<rfloor> else \<lceil>x\<rceil>)"

text \<open>\<^verbatim>\<open>static_cast<int32_t>(x)\<close> for a floating-point \<^verbatim>\<open>x\<close>: the fractional part is
  discarded; the conversion is undefined when the result does not fit.\<close>

definition static_cast_int32 :: "real \<Rightarrow> int option" where
  "static_cast_int32 x = int32_of (trunc x)"

text \<open>\<^verbatim>\<open>std::round\<close>: the nearest integer, halfway cases away from zero.\<close>

definition std_round :: "real \<Rightarrow> int" where
  "std_round x = (if 0 \<le> x then \<lfloor>x + 1 / 2\<rfloor> else \<lceil>x - 1 / 2\<rceil>)"

subsection \<open>Collaborators of the control loop\<close>

text \<open>
  \<^verbatim>\<open>cv::Mat\<close>, as far as the control loop reads it: the number of rows and columns and the
  pixels (one BGR or RGB triple of bytes per pixel, row by row).
\<close>

type_synonym pixel = "nat \<times> nat \<times> nat"

record mat =
  rows :: int
  cols :: int
  pixels :: "pixel list"

definition mat_default :: mat where
  "mat_default = \<lparr>rows = 0, cols = 0, pixels = []\<rparr>"

text \<open>\<^verbatim>\<open>cv::Mat::empty()\<close>: no data or no elements.\<close>

definition mat_empty :: "mat \<Rightarrow> bool" where
  "mat_empty m = (pixels m = [] \<or> rows m * cols m = 0)"

text \<open>
  Modelled from the spec: the class \<^verbatim>\<open>MovingAverageFilter\<close> is not part of the source file.
  Section 4.1 of the specification: \<^verbatim>\<open>addSample\<close> appends the sample to the bounded
  history, evicting the oldest entry if at capacity; \<^verbatim>\<open>getResult\<close> returns the mean of all
  currently held samples. Of the two policies the specification allows for a filter without
  samples, the value 0 is taken.
\<close>

record moving_average_filter =
  mSampleSize :: nat
  mSamples :: "int list"

definition MovingAverageFilter :: "nat \<Rightarrow> moving_average_filter" where
  "MovingAverageFilter n = \<lparr>mSampleSize = n, mSamples = []\<rparr>"

definition addSample :: "int \<Rightarrow> moving_average_filter \<Rightarrow> moving_average_filter" where
  "addSample newSample f =
     (if mSampleSize f \<le> length (mSamples f)
      then f\<lparr>mSamples := tl (mSamples f) @ [newSample]\<rparr>
      else f\<lparr>mSamples := mSamples f @ [newSample]\<rparr>)"

definition getResult :: "moving_average_filter \<Rightarrow> real" where
  "getResult f =
     (if mSamples f = [] then 0
      else real_of_int (sum_list (mSamples f)) / real (length (mSamples f)))"

text \<open>
  Modelled from the spec: the class \<^verbatim>\<open>StanleyController\<close> is not part of the source file.
  Section 4.2 of the specification: the steering output is a function of the cross-track
  error, the heading error, the speed, the configured gain and the look-ahead distance, with
  no inherent bound. The law itself is a parameter \<open>law\<close> of the model, applied to the gain,
  the look-ahead distance and the three arguments; \<^verbatim>\<open>calculateSteeringAngle\<close> stores its
  value and \<^verbatim>\<open>getResult\<close> reads it.
\<close>

type_synonym steering_law = "real \<Rightarrow> real \<Rightarrow> int \<Rightarrow> real \<Rightarrow> real \<Rightarrow> real"

record stanley_controller =
  mGain :: real
  mLookAheadDistance :: real
  mResult :: real

definition StanleyController :: "real \<Rightarrow> real \<Rightarrow> stanley_controller" where
  "StanleyController gain lookAheadDistance =
     \<lparr>mGain = gain, mLookAheadDistance = lookAheadDistance, mResult = 0\<rparr>"

definition calculateSteeringAngle ::
  "steering_law \<Rightarrow> int \<Rightarrow> real \<Rightarrow> real \<Rightarrow> stanley_controller \<Rightarrow> stanley_controller" where
  "calculateSteeringAngle law crossTrackError headingError velocity c =
     c\<lparr>mResult := law (mGain c) (mLookAheadDistance c) crossTrackError headingError velocity\<rparr>"

definition stanley_getResult :: "stanley_controller \<Rightarrow> real" where
  "stanley_getResult c = mResult c"

text \<open>
  The message \<^verbatim>\<open>xycar_msgs::xycar_motor\<close>: its two \<^verbatim>\<open>int32\<close> fields. \<^verbatim>\<open>drive\<close> assigns
  the floating-point result of \<^verbatim>\<open>std::round\<close> to such a field; the conversion is undefined
  when the rounded value does not fit.
\<close>

record xycar_motor =
  angle :: int
  speed :: int

definition round_to_int32 :: "real \<Rightarrow> int option" where
  "round_to_int32 x = int32_of (std_round x)"

subsection \<open>The state of a LaneKeepingSystem object\<close>

text \<open>
  The members the control loop reads or writes. \<open>mPublisher\<close> stands for the publisher: it
  holds the messages published so far, oldest first. The two PID controllers are never used
  by the compiled code, and the lane detector is a parameter of the loop.
\<close>

record lane_keeping_system =
  mFrame :: mat
  mMovingAverage :: moving_average_filter
  mStanley :: stanley_controller
  mPublisher :: "xycar_motor list"
  mPublishingTopicName :: string
  mSubscribedTopicName :: string
  mQueueSize :: nat
  mXycarSpeed :: real
  mXycarMaxSpeed :: real
  mXycarMinSpeed :: real
  mXycarSpeedControlThreshold :: real
  mAccelerationStep :: real
  mDecelerationStep :: real
  mStanleyGain :: real
  mStanleyLookAheadDistance :: real
  mDebugging :: bool

subsection \<open>Construction and parameters\<close>

text \<open>
  The configuration document, with the fields the constructor and \<^verbatim>\<open>setParams\<close> read
  (the gains of the two unused PID controllers are left out). A missing or malformed field
  makes the YAML library raise before the loop starts; the record has every field.
\<close>

record config =
  TOPIC_PUB_NAME :: string
  TOPIC_SUB_NAME :: string
  TOPIC_QUEUE_SIZE :: nat
  XYCAR_START_SPEED :: real
  XYCAR_MAX_SPEED :: real
  XYCAR_MIN_SPEED :: real
  XYCAR_SPEED_CONTROL_THRESHOLD :: real
  XYCAR_ACCELERATION_STEP :: real
  XYCAR_DECELERATION_STEP :: real
  STANLEY_K_GAIN :: real
  STANLEY_LOOK_AHREAD_DISTANCE :: real
  MOVING_AVERAGE_FILTER_SAMPLE_SIZE :: nat
  DEBUG :: bool

definition setParams :: "config \<Rightarrow> lane_keeping_system \<Rightarrow> lane_keeping_system" where
  "setParams cfg s =
     s\<lparr>mPublishingTopicName := TOPIC_PUB_NAME cfg,
       mSubscribedTopicName := TOPIC_SUB_NAME cfg,
       mQueueSize := TOPIC_QUEUE_SIZE cfg,
       mXycarSpeed := XYCAR_START_SPEED cfg,
       mXycarMaxSpeed := XYCAR_MAX_SPEED cfg,
       mXycarMinSpeed := XYCAR_MIN_SPEED cfg,
       mXycarSpeedControlThreshold := XYCAR_SPEED_CONTROL_THRESHOLD cfg,
       mAccelerationStep := XYCAR_ACCELERATION_STEP cfg,
       mDecelerationStep := XYCAR_DECELERATION_STEP cfg,
       mStanleyGain := STANLEY_K_GAIN cfg,
       mStanleyLookAheadDistance := STANLEY_LOOK_AHREAD_DISTANCE cfg,
       mDebugging := DEBUG cfg\<rparr>"

text \<open>
  The constructor: the filter is built with the configured sample size, \<^verbatim>\<open>setParams\<close>
  fills the parameters, and the Stanley controller is built last from the gain and the
  look-ahead distance just stored. The frame starts empty and nothing has been published.
  The members \<^verbatim>\<open>setParams\<close> assigns have no defined value before it runs; the record
  needs one, and every one of them is overwritten.
\<close>

definition LaneKeepingSystem :: "config \<Rightarrow> lane_keeping_system" where
  "LaneKeepingSystem cfg =
     (let s0 = \<lparr>mFrame = mat_default,
                mMovingAverage = MovingAverageFilter (MOVING_AVERAGE_FILTER_SAMPLE_SIZE cfg),
                mStanley = StanleyController 0 0,
                mPublisher = [],
                mPublishingTopicName = [], mSubscribedTopicName = [], mQueueSize = 0,
                mXycarSpeed = 0, mXycarMaxSpeed = 0, mXycarMinSpeed = 0,
                mXycarSpeedControlThreshold = 0, mAccelerationStep = 0, mDecelerationStep = 0,
                mStanleyGain = 0, mStanleyLookAheadDistance = 0, mDebugging = False\<rparr>;
          s1 = setParams cfg s0
      in s1\<lparr>mStanley := StanleyController (mStanleyGain s1) (mStanleyLookAheadDistance s1)\<rparr>)"

subsection \<open>Frame intake\<close>

text \<open>
  \<^verbatim>\<open>sensor_msgs::Image\<close>: height, width and the RGB pixels (the byte buffer and its row
  stride are read as one triple per pixel). \<^verbatim>\<open>imageCallback\<close> wraps the buffer in a matrix
  of \<open>height\<close> rows and \<open>width\<close> columns and stores the BGR conversion in \<open>mFrame\<close>.
  \<^verbatim>\<open>cv::cvtColor\<close> raises on an empty source: the model returns \<open>None\<close>.
\<close>

record sensor_image =
  height :: nat
  width :: nat
  data :: "pixel list"

definition cvtColor_RGB2BGR :: "mat \<Rightarrow> mat option" where
  "cvtColor_RGB2BGR src =
     (if mat_empty src then None
      else Some (src\<lparr>pixels := map (\<lambda>(r, g, b). (b, g, r)) (pixels src)\<rparr>))"

definition imageCallback :: "sensor_image \<Rightarrow> lane_keeping_system \<Rightarrow> lane_keeping_system option" where
  "imageCallback message s =
     (let src = \<lparr>rows = int (height message), cols = int (width message), pixels = data message\<rparr>
      in map_option (\<lambda>dst. s\<lparr>mFrame := dst\<rparr>) (cvtColor_RGB2BGR src))"

text \<open>\<^verbatim>\<open>ros::spinOnce()\<close>: the callback runs once for every pending image, in order.\<close>

fun spinOnce :: "sensor_image list \<Rightarrow> lane_keeping_system \<Rightarrow> lane_keeping_system option" where
  "spinOnce [] s = Some s"
| "spinOnce (message # pending) s = Option.bind (imageCallback message s) (spinOnce pending)"

subsection \<open>speedControl and drive\<close>

definition speedControl :: "real \<Rightarrow> lane_keeping_system \<Rightarrow> lane_keeping_system" where
  "speedControl steeringAngle s =
     (if \<bar>steeringAngle\<bar> > mXycarSpeedControlThreshold s
      then (let s1 = s\<lparr>mXycarSpeed := mXycarSpeed s - mDecelerationStep s\<rparr>
            in s1\<lparr>mXycarSpeed := max (mXycarSpeed s1) (mXycarMinSpeed s1)\<rparr>)
      else (let s1 = s\<lparr>mXycarSpeed := mXycarSpeed s + mAccelerationStep s\<rparr>
            in s1\<lparr>mXycarSpeed := min (mXycarSpeed s1) (mXycarMaxSpeed s1)\<rparr>))"

definition drive :: "real \<Rightarrow> lane_keeping_system \<Rightarrow> lane_keeping_system option" where
  "drive steeringAngle s =
     do {
       a \<leftarrow> round_to_int32 steeringAngle;
       v \<leftarrow> round_to_int32 (mXycarSpeed s);
       let motorMessage = \<lparr>angle = a, speed = v\<rparr>;
       Some (s\<lparr>mPublisher := mPublisher s @ [motorMessage]\<rparr>)
     }"

subsection \<open>One iteration of run\<close>

text \<open>
  The argument of \<^verbatim>\<open>addSample\<close> in the loop: \<^verbatim>\<open>(leftPosisionX + rightPositionX) / 2\<close> on
  the two integer positions the detector returned (the cast to \<^verbatim>\<open>int32_t\<close> does not change
  an integer).
\<close>

definition lanePositionSample :: "int \<Rightarrow> int \<Rightarrow> int option" where
  "lanePositionSample leftPosisionX rightPositionX =
     map_option half_int32 (add_int32 leftPosisionX rightPositionX)"

text \<open>The filter takes the sample, and \<^verbatim>\<open>estimatedPositionX\<close> is its result cast to
  \<^verbatim>\<open>int32_t\<close>.\<close>

definition estimatePosition ::
  "int \<Rightarrow> int \<Rightarrow> lane_keeping_system \<Rightarrow> (int \<times> lane_keeping_system) option" where
  "estimatePosition leftPosisionX rightPositionX s =
     do {
       sample \<leftarrow> lanePositionSample leftPosisionX rightPositionX;
       let s1 = s\<lparr>mMovingAverage := addSample sample (mMovingAverage s)\<rparr>;
       estimatedPositionX \<leftarrow> static_cast_int32 (getResult (mMovingAverage s1));
       Some (estimatedPositionX, s1)
     }"

text \<open>\<^verbatim>\<open>errorFromMid = estimatedPositionX - static_cast<int32_t>(mFrame.cols / 2) + 6\<close>.\<close>

definition errorFromMid :: "int \<Rightarrow> mat \<Rightarrow> int option" where
  "errorFromMid estimatedPositionX frame =
     do {
       d \<leftarrow> sub_int32 estimatedPositionX (half_int32 (cols frame));
       add_int32 d 6
     }"

text \<open>
  \<^verbatim>\<open>std::max(-limit, std::min(stanleyResult, limit))\<close>, where \<open>limit\<close> is the constant
  \<^verbatim>\<open>kXycarSteeringAangleLimit\<close> of the class declaration, which the source file does not
  show: it is a parameter of the model.
\<close>

definition clampSteering :: "int \<Rightarrow> real \<Rightarrow> real" where
  "clampSteering kXycarSteeringAangleLimit stanleyResult =
     max (real_of_int (- kXycarSteeringAangleLimit))
         (min stanleyResult (real_of_int kXycarSteeringAangleLimit))"

text \<open>
  From the detector call to the clamped steering angle. The detector
  (\<^verbatim>\<open>HoughTransformLaneDetector::getLanePosition\<close>, outside the source file) is the parameter
  \<open>getLanePosition\<close>: it maps the frame to the left and right lane positions.
\<close>

definition steeringStage ::
  "int \<Rightarrow> (mat \<Rightarrow> int \<times> int) \<Rightarrow> steering_law \<Rightarrow> lane_keeping_system
     \<Rightarrow> (real \<times> lane_keeping_system) option" where
  "steeringStage kLimit getLanePosition law s =
     do {
       let (leftPosisionX, rightPositionX) = getLanePosition (mFrame s);
       (estimatedPositionX, s1) \<leftarrow> estimatePosition leftPosisionX rightPositionX s;
       e \<leftarrow> errorFromMid estimatedPositionX (mFrame s1);
       let s2 = s1\<lparr>mStanley := calculateSteeringAngle law e 0 (mXycarSpeed s1) (mStanley s1)\<rparr>;
       let stanleyResult = stanley_getResult (mStanley s2);
       Some (clampSteering kLimit stanleyResult, s2)
     }"

text \<open>
  The body of the loop after \<^verbatim>\<open>ros::spinOnce()\<close>: nothing happens while the frame is
  empty; otherwise the steering angle is computed, the speed is updated and the command is
  published (\<open>None\<close> when a rounded value does not fit its message field). The debugging branch draws on the detector's own debug frame and shows it; it
  touches no member of the model.
\<close>

definition loop_body ::
  "int \<Rightarrow> (mat \<Rightarrow> int \<times> int) \<Rightarrow> steering_law \<Rightarrow> lane_keeping_system
     \<Rightarrow> lane_keeping_system option" where
  "loop_body kLimit getLanePosition law s =
     (if mat_empty (mFrame s) then Some s
      else do {
        (steeringAngle, s2) \<leftarrow> steeringStage kLimit getLanePosition law s;
        drive steeringAngle (speedControl steeringAngle s2)
      })"

text \<open>
  \<^verbatim>\<open>run\<close>: one list of pending images for every iteration made while \<^verbatim>\<open>ros::ok()\<close>
  holds; the result is the state when the loop is left.
\<close>

fun run ::
  "int \<Rightarrow> (mat \<Rightarrow> int \<times> int) \<Rightarrow> steering_law \<Rightarrow> sensor_image list list
     \<Rightarrow> lane_keeping_system \<Rightarrow> lane_keeping_system option" where
  "run kLimit getLanePosition law [] s = Some s"
| "run kLimit getLanePosition law (pending # iterations) s =
     do {
       s1 \<leftarrow> spinOnce pending s;
       s2 \<leftarrow> loop_body kLimit getLanePosition law s1;
       run kLimit getLanePosition law iterations s2
     }"

subsection \<open>A concrete system\<close>

definition example_config :: config where
  "example_config =
     \<lparr>TOPIC_PUB_NAME = ''xycar_motor'', TOPIC_SUB_NAME = ''usb_cam/image_raw'',
      TOPIC_QUEUE_SIZE = 1,
      XYCAR_START_SPEED = 10, XYCAR_MAX_SPEED = 20, XYCAR_MIN_SPEED = 3,
      XYCAR_SPEED_CONTROL_THRESHOLD = 5,
      XYCAR_ACCELERATION_STEP = 1, XYCAR_DECELERATION_STEP = 2,
      STANLEY_K_GAIN = 1, STANLEY_LOOK_AHREAD_DISTANCE = 100,
      MOVING_AVERAGE_FILTER_SAMPLE_SIZE = 5, DEBUG = False\<rparr>"

definition example_frame :: mat where
  "example_frame = \<lparr>rows = 1, cols = 640, pixels = replicate 640 (0, 0, 0)\<rparr>"

definition example_idle :: lane_keeping_system where
  "example_idle = LaneKeepingSystem example_config"

definition example_active :: lane_keeping_system where
  "example_active = (LaneKeepingSystem example_config)\<lparr>mFrame := example_frame\<rparr>"

definition example_detector :: "mat \<Rightarrow> int \<times> int" where
  "example_detector frame = (200, 440)"

definition example_law :: steering_law where
  "example_law gain lookAheadDistance crossTrackError headingError velocity =
     gain * real_of_int crossTrackError + headingError"

subsection \<open>Predicates on the state\<close>

definition speed_in_bounds :: "lane_keeping_system \<Rightarrow> bool" where
  "speed_in_bounds s = (mXycarMinSpeed s \<le> mXycarSpeed s \<and> mXycarSpeed s \<le> mXycarMaxSpeed s)"

definition steps_nonneg :: "lane_keeping_system \<Rightarrow> bool" where
  "steps_nonneg s = (0 \<le> mAccelerationStep s \<and> 0 \<le> mDecelerationStep s)"

section \<open>Properties\<close>

text \<open>
  C2. One speed update is a function of the previous speed, the steering angle and the
  configured constants only: above the threshold (in absolute value) the new speed is
  \<open>max (speed - decelerationStep) minSpeed\<close>, otherwise, also exactly at the threshold, it is
  \<open>min (speed + accelerationStep) maxSpeed\<close>. With speed 10, threshold 5, steering angle 8,
  deceleration step 2 and minimum speed 3 the new speed is 8.
\<close>

theorem speedControl_update:
  "mXycarSpeed (speedControl steeringAngle s) =
     (if \<bar>steeringAngle\<bar> > mXycarSpeedControlThreshold s
      then max (mXycarSpeed s - mDecelerationStep s) (mXycarMinSpeed s)
      else min (mXycarSpeed s + mAccelerationStep s) (mXycarMaxSpeed s))
   \<and> mXycarSpeed (speedControl 5 (s\<lparr>mXycarSpeed := 10, mXycarSpeedControlThreshold := 5,
        mAccelerationStep := 1, mXycarMaxSpeed := 20\<rparr>)) = 11
   \<and> mXycarSpeed (speedControl (- 5) (s\<lparr>mXycarSpeed := 10, mXycarSpeedControlThreshold := 5,
        mAccelerationStep := 1, mXycarMaxSpeed := 20\<rparr>)) = 11
   \<and> mXycarSpeed (speedControl 8 (s\<lparr>mXycarSpeed := 10, mXycarSpeedControlThreshold := 5,
        mDecelerationStep := 2, mXycarMinSpeed := 3\<rparr>)) = 8"
  by (simp add: speedControl_def Let_def)

subsection \<open>The speed controller\<close>

lemma speedControl_only_speed:
  "speedControl a s = s\<lparr>mXycarSpeed := mXycarSpeed (speedControl a s)\<rparr>"
  by (simp add: speedControl_def Let_def)

lemma drive_eq:
  "drive a s =
     (if in_int32 (std_round a) \<and> in_int32 (std_round (mXycarSpeed s))
      then Some (s\<lparr>mPublisher := mPublisher s @
             [\<lparr>angle = std_round a, speed = std_round (mXycarSpeed s)\<rparr>]\<rparr>)
      else None)"
  by (simp add: drive_def round_to_int32_def int32_of_def Let_def)

lemma std_round_nearest: "\<bar>real_of_int (std_round x) - x\<bar> \<le> 1 / 2"
proof (cases "0 \<le> x")
  case True
  then have r: "std_round x = \<lfloor>x + 1 / 2\<rfloor>"
    by (simp add: std_round_def)
  have "real_of_int \<lfloor>x + 1 / 2\<rfloor> \<le> x + 1 / 2" "x + 1 / 2 < real_of_int \<lfloor>x + 1 / 2\<rfloor> + 1"
    by linarith+
  then show ?thesis unfolding r by linarith
next
  case False
  then have r: "std_round x = \<lceil>x - 1 / 2\<rceil>"
    by (simp add: std_round_def)
  have "x - 1 / 2 \<le> real_of_int \<lceil>x - 1 / 2\<rceil>" "real_of_int \<lceil>x - 1 / 2\<rceil> < x - 1 / 2 + 1"
    by linarith+
  then show ?thesis unfolding r by linarith
qed

lemma std_round_clamped_fits:
  assumes "0 \<le> k" and "in_int32 k"
  shows "in_int32 (std_round (clampSteering k x))"
proof -
  have b: "- real_of_int k \<le> clampSteering k x" "clampSteering k x \<le> real_of_int k"
    using assms(1) by (simp_all add: clampSteering_def)
  have "\<bar>real_of_int (std_round (clampSteering k x)) - clampSteering k x\<bar> \<le> 1 / 2"
    by (rule std_round_nearest)
  with b have "- real_of_int k - 1 / 2 \<le> real_of_int (std_round (clampSteering k x))"
    and "real_of_int (std_round (clampSteering k x)) \<le> real_of_int k + 1 / 2"
    by linarith+
  then have "- k \<le> std_round (clampSteering k x) \<and> std_round (clampSteering k x) \<le> k"
    by linarith
  with assms(2) show ?thesis by (simp add: in_int32_def)
qed

lemma speedControl_params:
  "mXycarMinSpeed (speedControl a s) = mXycarMinSpeed s"
  "mXycarMaxSpeed (speedControl a s) = mXycarMaxSpeed s"
  "mAccelerationStep (speedControl a s) = mAccelerationStep s"
  "mDecelerationStep (speedControl a s) = mDecelerationStep s"
  "mXycarSpeedControlThreshold (speedControl a s) = mXycarSpeedControlThreshold s"
  by (simp_all add: speedControl_def Let_def)

lemma speedControl_keeps_bounds:
  assumes "speed_in_bounds s" and "steps_nonneg s"
  shows "speed_in_bounds (speedControl a s)"
proof (cases "\<bar>a\<bar> > mXycarSpeedControlThreshold s")
  case True
  with assms show ?thesis
    by (simp add: speed_in_bounds_def steps_nonneg_def speedControl_def Let_def)
next
  case False
  with assms show ?thesis
    by (simp add: speed_in_bounds_def steps_nonneg_def speedControl_def Let_def)
qed

lemma fold_speedControl_keeps_bounds:
  "speed_in_bounds s \<Longrightarrow> steps_nonneg s \<Longrightarrow>
     speed_in_bounds (fold speedControl angles s) \<and> steps_nonneg (fold speedControl angles s)
     \<and> mXycarMinSpeed (fold speedControl angles s) = mXycarMinSpeed s
     \<and> mXycarMaxSpeed (fold speedControl angles s) = mXycarMaxSpeed s"
proof (induction angles arbitrary: s)
  case Nil
  then show ?case by simp
next
  case (Cons a angles)
  have "speed_in_bounds (speedControl a s)"
    using Cons.prems by (rule speedControl_keeps_bounds)
  moreover have "steps_nonneg (speedControl a s)"
    using Cons.prems(2) by (simp add: steps_nonneg_def speedControl_params)
  ultimately show ?case
    using Cons.IH [of "speedControl a s"] by (simp add: speedControl_params)
qed

text \<open>
  C3, as stated: from the configured start speed, the speed after every update lies within
  \<open>[minSpeed, maxSpeed]\<close>. The code only clamps a decelerating update from below and an
  accelerating update from above, and \<^verbatim>\<open>setParams\<close> stores the configuration as it is: with
  a start speed of 100 and a maximum of 20, one decelerating update gives 98; with a start
  speed of 10 within \<open>[3, 20]\<close> and a deceleration step of -15, one decelerating update
  gives 25.
\<close>

theorem speed_leaves_bounds_counterexample:
  "mXycarSpeed (LaneKeepingSystem (example_config\<lparr>XYCAR_START_SPEED := 100\<rparr>)) = 100
   \<and> mXycarMaxSpeed (LaneKeepingSystem (example_config\<lparr>XYCAR_START_SPEED := 100\<rparr>)) = 20
   \<and> mXycarSpeed (speedControl 8 (LaneKeepingSystem (example_config\<lparr>XYCAR_START_SPEED := 100\<rparr>))) = 98
   \<and> \<not> mXycarSpeed (speedControl 8 (LaneKeepingSystem (example_config\<lparr>XYCAR_START_SPEED := 100\<rparr>)))
        \<le> mXycarMaxSpeed (speedControl 8 (LaneKeepingSystem (example_config\<lparr>XYCAR_START_SPEED := 100\<rparr>)))
   \<and> mXycarSpeed (speedControl 8
         (LaneKeepingSystem (example_config\<lparr>XYCAR_DECELERATION_STEP := - 15\<rparr>))) = 25
   \<and> mXycarMaxSpeed (speedControl 8
         (LaneKeepingSystem (example_config\<lparr>XYCAR_DECELERATION_STEP := - 15\<rparr>))) = 20"
  by (simp add: LaneKeepingSystem_def setParams_def example_config_def speedControl_def Let_def)

text \<open>
  C3, amended: if the configured start speed lies within \<open>[minSpeed, maxSpeed]\<close> and both
  steps are non-negative, then after any sequence of speed updates, whatever the steering
  angles, the speed lies within \<open>[minSpeed, maxSpeed]\<close>.
\<close>

theorem speed_stays_in_bounds:
  assumes "XYCAR_MIN_SPEED cfg \<le> XYCAR_START_SPEED cfg"
    and "XYCAR_START_SPEED cfg \<le> XYCAR_MAX_SPEED cfg"
    and "0 \<le> XYCAR_ACCELERATION_STEP cfg"
    and "0 \<le> XYCAR_DECELERATION_STEP cfg"
  shows "mXycarSpeed (LaneKeepingSystem cfg) = XYCAR_START_SPEED cfg
    \<and> XYCAR_MIN_SPEED cfg \<le> mXycarSpeed (fold speedControl angles (LaneKeepingSystem cfg))
    \<and> mXycarSpeed (fold speedControl angles (LaneKeepingSystem cfg)) \<le> XYCAR_MAX_SPEED cfg"
proof -
  let ?s = "LaneKeepingSystem cfg"
  have init: "mXycarSpeed ?s = XYCAR_START_SPEED cfg" "mXycarMinSpeed ?s = XYCAR_MIN_SPEED cfg"
    "mXycarMaxSpeed ?s = XYCAR_MAX_SPEED cfg"
    "mAccelerationStep ?s = XYCAR_ACCELERATION_STEP cfg"
    "mDecelerationStep ?s = XYCAR_DECELERATION_STEP cfg"
    by (simp_all add: LaneKeepingSystem_def setParams_def Let_def)
  have "speed_in_bounds ?s" and "steps_nonneg ?s"
    using assms by (simp_all add: speed_in_bounds_def steps_nonneg_def init)
  then have "speed_in_bounds (fold speedControl angles ?s)
      \<and> mXycarMinSpeed (fold speedControl angles ?s) = mXycarMinSpeed ?s
      \<and> mXycarMaxSpeed (fold speedControl angles ?s) = mXycarMaxSpeed ?s"
    using fold_speedControl_keeps_bounds [of ?s angles] by simp
  then show ?thesis
    by (simp add: speed_in_bounds_def init)
qed

theorem speed_stays_in_bounds_witness:
  "XYCAR_MIN_SPEED example_config \<le> XYCAR_START_SPEED example_config
   \<and> XYCAR_START_SPEED example_config \<le> XYCAR_MAX_SPEED example_config
   \<and> 0 \<le> XYCAR_ACCELERATION_STEP example_config
   \<and> 0 \<le> XYCAR_DECELERATION_STEP example_config
   \<and> XYCAR_MIN_SPEED example_config
        \<le> mXycarSpeed (fold speedControl [8, 0, - 9] (LaneKeepingSystem example_config))
   \<and> mXycarSpeed (fold speedControl [8, 0, - 9] (LaneKeepingSystem example_config))
        \<le> XYCAR_MAX_SPEED example_config"
proof -
  have h: "XYCAR_MIN_SPEED example_config \<le> XYCAR_START_SPEED example_config"
    "XYCAR_START_SPEED example_config \<le> XYCAR_MAX_SPEED example_config"
    "0 \<le> XYCAR_ACCELERATION_STEP example_config"
    "0 \<le> XYCAR_DECELERATION_STEP example_config"
    by (simp_all add: example_config_def)
  from speed_stays_in_bounds [OF h, of "[8, 0, - 9]"] h show ?thesis by simp
qed

text \<open>
  C8. Neither branch clamps at the opposite bound: a decelerating update whose result is still
  above the maximum speed (and not below the minimum) returns \<open>speed - decelerationStep\<close>,
  above the maximum; an accelerating update whose result is still below the minimum speed
  returns \<open>speed + accelerationStep\<close>, below the minimum.
\<close>

theorem speedControl_one_sided:
  "(\<bar>a\<bar> > mXycarSpeedControlThreshold s
      \<and> mXycarMaxSpeed s < mXycarSpeed s - mDecelerationStep s
      \<and> mXycarMinSpeed s \<le> mXycarSpeed s - mDecelerationStep s
    \<longrightarrow> mXycarSpeed (speedControl a s) = mXycarSpeed s - mDecelerationStep s
      \<and> mXycarMaxSpeed s < mXycarSpeed (speedControl a s))
   \<and> (\<bar>b\<bar> \<le> mXycarSpeedControlThreshold t
      \<and> mXycarSpeed t + mAccelerationStep t < mXycarMinSpeed t
      \<and> mXycarSpeed t + mAccelerationStep t \<le> mXycarMaxSpeed t
    \<longrightarrow> mXycarSpeed (speedControl b t) = mXycarSpeed t + mAccelerationStep t
      \<and> mXycarSpeed (speedControl b t) < mXycarMinSpeed t)"
  by (simp add: speedControl_def Let_def)

theorem speedControl_one_sided_witness:
  "\<bar>8\<bar> > mXycarSpeedControlThreshold (example_active\<lparr>mXycarSpeed := 100\<rparr>)
   \<and> mXycarMaxSpeed (example_active\<lparr>mXycarSpeed := 100\<rparr>)
       < mXycarSpeed (example_active\<lparr>mXycarSpeed := 100\<rparr>)
         - mDecelerationStep (example_active\<lparr>mXycarSpeed := 100\<rparr>)
   \<and> mXycarSpeed (speedControl 8 (example_active\<lparr>mXycarSpeed := 100\<rparr>)) = 98
   \<and> mXycarMaxSpeed (example_active\<lparr>mXycarSpeed := 100\<rparr>) = 20
   \<and> \<bar>5\<bar> \<le> mXycarSpeedControlThreshold (example_active\<lparr>mXycarSpeed := 0\<rparr>)
   \<and> mXycarSpeed (example_active\<lparr>mXycarSpeed := 0\<rparr>)
         + mAccelerationStep (example_active\<lparr>mXycarSpeed := 0\<rparr>)
       < mXycarMinSpeed (example_active\<lparr>mXycarSpeed := 0\<rparr>)
   \<and> mXycarSpeed (speedControl 5 (example_active\<lparr>mXycarSpeed := 0\<rparr>)) = 1
   \<and> mXycarMinSpeed (example_active\<lparr>mXycarSpeed := 0\<rparr>) = 3"
proof -
  have p: "mXycarSpeedControlThreshold example_active = 5" "mXycarMaxSpeed example_active = 20"
    "mXycarMinSpeed example_active = 3" "mDecelerationStep example_active = 2"
    "mAccelerationStep example_active = 1"
    by (simp_all add: example_active_def example_config_def LaneKeepingSystem_def
        setParams_def Let_def)
  from speedControl_one_sided [where a = 8 and s = "example_active\<lparr>mXycarSpeed := 100\<rparr>"
      and b = 5 and t = "example_active\<lparr>mXycarSpeed := 0\<rparr>"]
  show ?thesis by (simp add: p)
qed

text \<open>
  C10. \<^verbatim>\<open>speedControl\<close> changes the speed and nothing else; \<^verbatim>\<open>drive\<close> appends one message
  to what was published and changes no member: the filter, the frame, the Stanley controller
  and every configured parameter are as before. \<^verbatim>\<open>drive\<close> has a result exactly when the
  rounded steering angle and the rounded speed fit the 32-bit fields of the message.
\<close>

theorem speedControl_drive_frame:
  "speedControl steeringAngle s = s\<lparr>mXycarSpeed := mXycarSpeed (speedControl steeringAngle s)\<rparr>
   \<and> drive steeringAngle s =
       (if in_int32 (std_round steeringAngle) \<and> in_int32 (std_round (mXycarSpeed s))
        then Some (s\<lparr>mPublisher := mPublisher s @
               [\<lparr>angle = std_round steeringAngle, speed = std_round (mXycarSpeed s)\<rparr>]\<rparr>)
        else None)
   \<and> drive steeringAngle (speedControl steeringAngle s) =
       (if in_int32 (std_round steeringAngle)
           \<and> in_int32 (std_round (mXycarSpeed (speedControl steeringAngle s)))
        then Some (s\<lparr>mXycarSpeed := mXycarSpeed (speedControl steeringAngle s),
               mPublisher := mPublisher s @ [\<lparr>angle = std_round steeringAngle,
                 speed = std_round (mXycarSpeed (speedControl steeringAngle s))\<rparr>]\<rparr>)
        else None)
   \<and> (drive steeringAngle s = Some s' \<longrightarrow> s' = s\<lparr>mPublisher := mPublisher s'\<rparr>)
   \<and> (drive steeringAngle (speedControl steeringAngle s) = Some s'' \<longrightarrow>
        s'' = s\<lparr>mXycarSpeed := mXycarSpeed s'', mPublisher := mPublisher s''\<rparr>
        \<and> mMovingAverage s'' = mMovingAverage s
        \<and> mFrame s'' = mFrame s
        \<and> mStanley s'' = mStanley s)"
proof -
  have sc: "speedControl steeringAngle s =
      s\<lparr>mXycarSpeed := mXycarSpeed (speedControl steeringAngle s)\<rparr>"
    by (rule speedControl_only_speed)
  have d: "drive steeringAngle s =
       (if in_int32 (std_round steeringAngle) \<and> in_int32 (std_round (mXycarSpeed s))
        then Some (s\<lparr>mPublisher := mPublisher s @
               [\<lparr>angle = std_round steeringAngle, speed = std_round (mXycarSpeed s)\<rparr>]\<rparr>)
        else None)"
    by (rule drive_eq)
  have both: "drive steeringAngle (speedControl steeringAngle s) =
       (if in_int32 (std_round steeringAngle)
           \<and> in_int32 (std_round (mXycarSpeed (speedControl steeringAngle s)))
        then Some (s\<lparr>mXycarSpeed := mXycarSpeed (speedControl steeringAngle s),
               mPublisher := mPublisher s @ [\<lparr>angle = std_round steeringAngle,
                 speed = std_round (mXycarSpeed (speedControl steeringAngle s))\<rparr>]\<rparr>)
        else None)"
    by (simp add: drive_eq) (simp add: speedControl_def Let_def)
  have d_frame: "drive steeringAngle s = Some s' \<longrightarrow> s' = s\<lparr>mPublisher := mPublisher s'\<rparr>"
    by (auto simp: drive_eq split: if_splits)
  have both_frame: "drive steeringAngle (speedControl steeringAngle s) = Some s'' \<longrightarrow>
        s'' = s\<lparr>mXycarSpeed := mXycarSpeed s'', mPublisher := mPublisher s''\<rparr>
        \<and> mMovingAverage s'' = mMovingAverage s
        \<and> mFrame s'' = mFrame s
        \<and> mStanley s'' = mStanley s"
    by (auto simp: both split: if_splits)
  from sc d both d_frame both_frame show ?thesis by blast
qed

theorem speedControl_drive_frame_witness:
  "drive 8 example_active =
     Some (example_active\<lparr>mPublisher := [\<lparr>angle = 8, speed = 10\<rparr>]\<rparr>)
   \<and> drive 8 (speedControl 8 example_active) =
     Some (example_active\<lparr>mXycarSpeed := 8, mPublisher := [\<lparr>angle = 8, speed = 8\<rparr>]\<rparr>)
   \<and> mMovingAverage (example_active\<lparr>mXycarSpeed := 8, mPublisher := [\<lparr>angle = 8, speed = 8\<rparr>]\<rparr>)
       = mMovingAverage example_active
   \<and> mFrame (example_active\<lparr>mXycarSpeed := 8, mPublisher := [\<lparr>angle = 8, speed = 8\<rparr>]\<rparr>)
       = mFrame example_active
   \<and> mStanley (example_active\<lparr>mXycarSpeed := 8, mPublisher := [\<lparr>angle = 8, speed = 8\<rparr>]\<rparr>)
       = mStanley example_active"
proof -
  have p: "mXycarSpeed example_active = 10" "mPublisher example_active = []"
    "mXycarSpeedControlThreshold example_active = 5" "mXycarMinSpeed example_active = 3"
    "mDecelerationStep example_active = 2"
    by (simp_all add: example_active_def example_config_def LaneKeepingSystem_def
        setParams_def Let_def)
  have v: "mXycarSpeed (speedControl 8 example_active) = 8"
    by (simp add: speedControl_def Let_def p)
  have r: "std_round 8 = 8" "std_round 10 = 10"
    by (simp_all add: std_round_def)
  have d1: "drive 8 example_active =
      Some (example_active\<lparr>mPublisher := [\<lparr>angle = 8, speed = 10\<rparr>]\<rparr>)"
    using speedControl_drive_frame [of 8 example_active, THEN conjunct2, THEN conjunct1]
    by (simp add: p r in_int32_def)
  have d2: "drive 8 (speedControl 8 example_active) =
      Some (example_active\<lparr>mXycarSpeed := 8, mPublisher := [\<lparr>angle = 8, speed = 8\<rparr>]\<rparr>)"
    using speedControl_drive_frame [of 8 example_active, THEN conjunct2, THEN conjunct2,
        THEN conjunct1]
    by (simp add: p r v in_int32_def)
  from speedControl_drive_frame [of 8 example_active
      "example_active\<lparr>mPublisher := [\<lparr>angle = 8, speed = 10\<rparr>]\<rparr>"
      "example_active\<lparr>mXycarSpeed := 8, mPublisher := [\<lparr>angle = 8, speed = 8\<rparr>]\<rparr>"] d1 d2
  show ?thesis by simp
qed

subsection \<open>Integer arithmetic of the loop\<close>

lemma floor_half: "\<lfloor>real_of_int a / 2\<rfloor> = a div 2"
  using floor_divide_of_int_eq [of a 2, where ?'a = real] by simp

lemma ceiling_half: "\<lceil>real_of_int a / 2\<rceil> = - ((- a) div 2)"
proof -
  have "\<lceil>real_of_int a / 2\<rceil> = - \<lfloor>real_of_int (- a) / 2\<rfloor>"
    by (simp add: ceiling_def)
  then show ?thesis by (simp only: floor_half)
qed

lemma half_int32_trunc: "half_int32 a = trunc (real_of_int a / 2)"
proof (cases "0 \<le> a")
  case True
  then show ?thesis
    by (simp add: half_int32_def trunc_def floor_half signed_divide_int_def sgn_if)
next
  case False
  then have "a < 0" by simp
  then show ?thesis
    by (simp add: half_int32_def trunc_def ceiling_half signed_divide_int_def sgn_if)
qed

lemma lanePositionSample_eq:
  "lanePositionSample l r = (if in_int32 (l + r) then Some (half_int32 (l + r)) else None)"
  by (simp add: lanePositionSample_def add_int32_def int32_of_def)

lemma errorFromMid_eq:
  "errorFromMid est frame =
     (if in_int32 (est - half_int32 (cols frame)) \<and> in_int32 (est - half_int32 (cols frame) + 6)
      then Some (est - half_int32 (cols frame) + 6) else None)"
  by (simp add: errorFromMid_def sub_int32_def add_int32_def int32_of_def)

subsection \<open>The stages of one iteration\<close>

lemma estimatePosition_Some:
  assumes "estimatePosition l r s = Some (est, s1)"
  shows "in_int32 (l + r)"
    and "s1 = s\<lparr>mMovingAverage := addSample (half_int32 (l + r)) (mMovingAverage s)\<rparr>"
    and "est = trunc (getResult (mMovingAverage s1))"
    and "in_int32 est"
  using assms
  by (auto simp: estimatePosition_def lanePositionSample_eq static_cast_int32_def
      int32_of_def Let_def split: if_splits)

lemma steeringStage_Some:
  assumes "steeringStage k getLanePosition law s = Some (a, s2)"
  obtains est s1 e where
    "estimatePosition (fst (getLanePosition (mFrame s))) (snd (getLanePosition (mFrame s))) s
       = Some (est, s1)"
    and "errorFromMid est (mFrame s) = Some e"
    and "s2 = s1\<lparr>mStanley := calculateSteeringAngle law e 0 (mXycarSpeed s) (mStanley s)\<rparr>"
    and "a = clampSteering k (stanley_getResult (mStanley s2))"
proof -
  obtain l r where lr: "getLanePosition (mFrame s) = (l, r)"
    by (cases "getLanePosition (mFrame s)")
  from assms lr obtain est s1 where est: "estimatePosition l r s = Some (est, s1)"
    by (auto simp: steeringStage_def Let_def split: Option.bind_splits)
  have s1: "s1 = s\<lparr>mMovingAverage := addSample (half_int32 (l + r)) (mMovingAverage s)\<rparr>"
    using est by (rule estimatePosition_Some)
  from assms lr est obtain e where e: "errorFromMid est (mFrame s1) = Some e"
    by (auto simp: steeringStage_def Let_def split: Option.bind_splits)
  from assms lr est e
  have "s2 = s1\<lparr>mStanley := calculateSteeringAngle law e 0 (mXycarSpeed s1) (mStanley s1)\<rparr>"
    and "a = clampSteering k (stanley_getResult (mStanley s2))"
    by (auto simp: steeringStage_def Let_def)
  with lr est e s1 show thesis
    by (intro that [of est s1 e]) simp_all
qed

lemma steeringStage_frame:
  assumes "steeringStage k getLanePosition law s = Some (a, s2)"
  shows "s2 = s\<lparr>mMovingAverage := mMovingAverage s2, mStanley := mStanley s2\<rparr>"
proof -
  from assms obtain est s1 e where
    est: "estimatePosition (fst (getLanePosition (mFrame s))) (snd (getLanePosition (mFrame s))) s
       = Some (est, s1)"
    and s2: "s2 = s1\<lparr>mStanley := calculateSteeringAngle law e 0 (mXycarSpeed s) (mStanley s)\<rparr>"
    by (rule steeringStage_Some)
  from estimatePosition_Some(2) [OF est] s2 show ?thesis by simp
qed

lemma steeringStage_defined:
  assumes "getLanePosition (mFrame s) = (l, r)"
    and "in_int32 (l + r)"
    and "est = trunc (getResult (addSample (half_int32 (l + r)) (mMovingAverage s)))"
    and "in_int32 est"
    and "in_int32 (est - half_int32 (cols (mFrame s)))"
    and "in_int32 (est - half_int32 (cols (mFrame s)) + 6)"
  shows "\<exists>a s2. steeringStage k getLanePosition law s = Some (a, s2)"
  using assms
  by (simp add: steeringStage_def estimatePosition_def lanePositionSample_eq errorFromMid_eq
      static_cast_int32_def int32_of_def Let_def)

lemma loop_body_active:
  assumes "\<not> mat_empty (mFrame s)"
    and "steeringStage k getLanePosition law s = Some (a, s2)"
  shows "loop_body k getLanePosition law s = drive a (speedControl a s2)"
  using assms by (simp add: loop_body_def)

lemma clampSteering_bounds:
  "0 \<le> k \<Longrightarrow> - real_of_int k \<le> clampSteering k x \<and> clampSteering k x \<le> real_of_int k"
  by (simp add: clampSteering_def)

lemma example_active_fields:
  "mFrame example_active = example_frame"
  "mMovingAverage example_active = \<lparr>mSampleSize = 5, mSamples = []\<rparr>"
  "mStanley example_active = \<lparr>mGain = 1, mLookAheadDistance = 100, mResult = 0\<rparr>"
  "mXycarSpeed example_active = 10"
  "mPublisher example_active = []"
  "mXycarSpeedControlThreshold example_active = 5"
  "mXycarMaxSpeed example_active = 20"
  "mXycarMinSpeed example_active = 3"
  "mAccelerationStep example_active = 1"
  "mDecelerationStep example_active = 2"
  by (simp_all add: example_active_def example_config_def LaneKeepingSystem_def setParams_def
      MovingAverageFilter_def StanleyController_def Let_def)

lemma example_frame_fields:
  "cols example_frame = 640" "\<not> mat_empty example_frame"
  by (simp_all add: example_frame_def mat_empty_def)

lemma example_steeringStage:
  "steeringStage 50 example_detector law example_active =
     Some (clampSteering 50 (law 1 100 6 0 10),
           example_active\<lparr>mMovingAverage := \<lparr>mSampleSize = 5, mSamples = [320]\<rparr>,
             mStanley := \<lparr>mGain = 1, mLookAheadDistance = 100, mResult = law 1 100 6 0 10\<rparr>\<rparr>)"
  by (simp add: steeringStage_def estimatePosition_def lanePositionSample_eq errorFromMid_eq
      static_cast_int32_def int32_of_def in_int32_def half_int32_def trunc_def getResult_def
      addSample_def calculateSteeringAngle_def stanley_getResult_def example_detector_def
      example_active_fields example_frame_fields Let_def)

lemma example_steeringStage_upd:
  "steeringStage 50 example_detector law
       (example_active\<lparr>mXycarSpeed := v, mXycarMaxSpeed := m, mDecelerationStep := d\<rparr>) =
     Some (clampSteering 50 (law 1 100 6 0 v),
           example_active\<lparr>mXycarSpeed := v, mXycarMaxSpeed := m, mDecelerationStep := d,
             mMovingAverage := \<lparr>mSampleSize = 5, mSamples = [320]\<rparr>,
             mStanley := \<lparr>mGain = 1, mLookAheadDistance = 100, mResult = law 1 100 6 0 v\<rparr>\<rparr>)"
  by (simp add: steeringStage_def estimatePosition_def lanePositionSample_eq errorFromMid_eq
      static_cast_int32_def int32_of_def in_int32_def half_int32_def trunc_def getResult_def
      addSample_def calculateSteeringAngle_def stanley_getResult_def example_detector_def
      example_active_fields example_frame_fields Let_def)

lemma example_estimatePosition:
  "estimatePosition 321 321 (example_active\<lparr>mMovingAverage := \<lparr>mSampleSize = 5, mSamples = [320]\<rparr>\<rparr>)
     = Some (320, example_active\<lparr>mMovingAverage := \<lparr>mSampleSize = 5, mSamples = [320, 321]\<rparr>\<rparr>)"
  by (simp add: estimatePosition_def lanePositionSample_eq static_cast_int32_def int32_of_def
      in_int32_def half_int32_def trunc_def getResult_def addSample_def Let_def)

lemma run_idle:
  "mat_empty (mFrame s) \<Longrightarrow>
     run k d law (replicate n [] @ iterations) s = run k d law iterations s"
  by (induction n) (simp_all add: loop_body_def)

subsection \<open>The speed bounds along the loop\<close>

lemma imageCallback_frame:
  "imageCallback message s = Some s1 \<Longrightarrow> s1 = s\<lparr>mFrame := mFrame s1\<rparr>"
  by (auto simp: imageCallback_def Let_def)

lemma spinOnce_frame:
  "spinOnce pending s = Some s1 \<Longrightarrow> s1 = s\<lparr>mFrame := mFrame s1\<rparr>"
proof (induction pending arbitrary: s)
  case Nil
  then show ?case by simp
next
  case (Cons message pending)
  then obtain t where t: "imageCallback message s = Some t" and rest: "spinOnce pending t = Some s1"
    by (auto split: Option.bind_splits)
  from t have "t = s\<lparr>mFrame := mFrame t\<rparr>" by (rule imageCallback_frame)
  moreover from rest have "s1 = t\<lparr>mFrame := mFrame s1\<rparr>" by (rule Cons.IH)
  ultimately have "s1 = s\<lparr>mFrame := mFrame t\<rparr>\<lparr>mFrame := mFrame s1\<rparr>" by simp
  then show ?case by simp
qed

lemma loop_body_keeps_bounds:
  assumes "loop_body k getLanePosition law s = Some s'"
    and "speed_in_bounds s" and "steps_nonneg s"
  shows "speed_in_bounds s' \<and> steps_nonneg s'
    \<and> mXycarMinSpeed s' = mXycarMinSpeed s \<and> mXycarMaxSpeed s' = mXycarMaxSpeed s"
proof (cases "mat_empty (mFrame s)")
  case True
  with assms show ?thesis by (simp add: loop_body_def)
next
  case False
  with assms(1) obtain a s2 where
    stage: "steeringStage k getLanePosition law s = Some (a, s2)"
    and s': "drive a (speedControl a s2) = Some s'"
    by (auto simp: loop_body_def split: Option.bind_splits)
  have frame: "s2 = s\<lparr>mMovingAverage := mMovingAverage s2, mStanley := mStanley s2\<rparr>"
    using stage by (rule steeringStage_frame)
  have "speed_in_bounds s2" "steps_nonneg s2"
    "mXycarMinSpeed s2 = mXycarMinSpeed s" "mXycarMaxSpeed s2 = mXycarMaxSpeed s"
    using assms(2,3) by (subst frame, simp add: speed_in_bounds_def steps_nonneg_def)+
  moreover from this have "speed_in_bounds (speedControl a s2)"
    by (simp add: speedControl_keeps_bounds)
  moreover have pub: "s' = (speedControl a s2)\<lparr>mPublisher := mPublisher s'\<rparr>"
    using s' by (auto simp: drive_eq split: if_splits)
  have "mXycarSpeed s' = mXycarSpeed (speedControl a s2)"
    "mXycarMinSpeed s' = mXycarMinSpeed (speedControl a s2)"
    "mXycarMaxSpeed s' = mXycarMaxSpeed (speedControl a s2)"
    "mAccelerationStep s' = mAccelerationStep (speedControl a s2)"
    "mDecelerationStep s' = mDecelerationStep (speedControl a s2)"
    by (subst pub, simp)+
  ultimately show ?thesis
    by (simp add: speed_in_bounds_def steps_nonneg_def speedControl_params)
qed

lemma run_keeps_bounds:
  "run k getLanePosition law iterations s = Some s' \<Longrightarrow> speed_in_bounds s \<Longrightarrow> steps_nonneg s
     \<Longrightarrow> speed_in_bounds s' \<and> mXycarMinSpeed s' = mXycarMinSpeed s
       \<and> mXycarMaxSpeed s' = mXycarMaxSpeed s"
proof (induction iterations arbitrary: s)
  case Nil
  then show ?case by simp
next
  case (Cons pending iterations)
  from Cons.prems(1) obtain s1 s2 where
    spin: "spinOnce pending s = Some s1"
    and body: "loop_body k getLanePosition law s1 = Some s2"
    and rest: "run k getLanePosition law iterations s2 = Some s'"
    by (auto split: Option.bind_splits)
  have frame: "s1 = s\<lparr>mFrame := mFrame s1\<rparr>"
    using spin by (rule spinOnce_frame)
  have s1: "speed_in_bounds s1" "steps_nonneg s1"
    "mXycarMinSpeed s1 = mXycarMinSpeed s" "mXycarMaxSpeed s1 = mXycarMaxSpeed s"
    using Cons.prems(2,3) by (subst frame, simp add: speed_in_bounds_def steps_nonneg_def)+
  from loop_body_keeps_bounds [OF body s1(1,2)]
  have s2: "speed_in_bounds s2" "steps_nonneg s2"
    "mXycarMinSpeed s2 = mXycarMinSpeed s1" "mXycarMaxSpeed s2 = mXycarMaxSpeed s1"
    by simp_all
  from Cons.IH [OF rest s2(1,2)] s2 s1 show ?case by simp
qed

subsection \<open>The control loop\<close>

text \<open>
  C1. In every iteration that reaches the steering computation, the steering angle handed to
  \<^verbatim>\<open>speedControl\<close> and \<^verbatim>\<open>drive\<close> is the result of the Stanley controller clamped by
  \<open>max (- limit) (min result limit)\<close>; for a non-negative limit it lies within
  \<open>[- limit, limit]\<close>. With limit 50 and a Stanley result of 1000 the steering angle is 50.
\<close>

theorem steering_clamped:
  assumes "steeringStage kLimit getLanePosition law s = Some (steeringAngle, s2)"
  shows "steeringAngle =
        max (- real_of_int kLimit) (min (stanley_getResult (mStanley s2)) (real_of_int kLimit))
    \<and> (\<not> mat_empty (mFrame s) \<longrightarrow>
         loop_body kLimit getLanePosition law s =
           drive steeringAngle (speedControl steeringAngle s2))
    \<and> (0 \<le> kLimit \<longrightarrow>
         - real_of_int kLimit \<le> steeringAngle \<and> steeringAngle \<le> real_of_int kLimit)
    \<and> clampSteering 50 1000 = 50"
proof -
  from assms have a: "steeringAngle = clampSteering kLimit (stanley_getResult (mStanley s2))"
    by (rule steeringStage_Some)
  then have "steeringAngle =
      max (- real_of_int kLimit) (min (stanley_getResult (mStanley s2)) (real_of_int kLimit))"
    by (simp add: clampSteering_def)
  moreover have "\<not> mat_empty (mFrame s) \<longrightarrow>
      loop_body kLimit getLanePosition law s =
        drive steeringAngle (speedControl steeringAngle s2)"
    using assms by (simp add: loop_body_active)
  moreover have "0 \<le> kLimit \<longrightarrow>
      - real_of_int kLimit \<le> steeringAngle \<and> steeringAngle \<le> real_of_int kLimit"
    using a by (simp add: clampSteering_bounds)
  moreover have "clampSteering 50 1000 = 50"
    by (simp add: clampSteering_def)
  ultimately show ?thesis by blast
qed

theorem steering_clamped_witness:
  "steeringStage 50 example_detector (\<lambda>gain distance e heading v. 1000) example_active =
     Some (50, example_active\<lparr>mMovingAverage := \<lparr>mSampleSize = 5, mSamples = [320]\<rparr>,
             mStanley := \<lparr>mGain = 1, mLookAheadDistance = 100, mResult = 1000\<rparr>\<rparr>)
   \<and> \<not> mat_empty (mFrame example_active)
   \<and> (0::int) \<le> 50
   \<and> loop_body 50 example_detector (\<lambda>gain distance e heading v. 1000) example_active =
       drive 50 (speedControl 50
         (example_active\<lparr>mMovingAverage := \<lparr>mSampleSize = 5, mSamples = [320]\<rparr>,
             mStanley := \<lparr>mGain = 1, mLookAheadDistance = 100, mResult = 1000\<rparr>\<rparr>))
   \<and> drive 50 (speedControl 50
         (example_active\<lparr>mMovingAverage := \<lparr>mSampleSize = 5, mSamples = [320]\<rparr>,
             mStanley := \<lparr>mGain = 1, mLookAheadDistance = 100, mResult = 1000\<rparr>\<rparr>)) =
       Some (example_active\<lparr>mMovingAverage := \<lparr>mSampleSize = 5, mSamples = [320]\<rparr>,
             mStanley := \<lparr>mGain = 1, mLookAheadDistance = 100, mResult = 1000\<rparr>,
             mXycarSpeed := 8, mPublisher := [\<lparr>angle = 50, speed = 8\<rparr>]\<rparr>)
   \<and> (50::real) = max (- 50) (min 1000 50)"
proof -
  have h: "steeringStage 50 example_detector (\<lambda>gain distance e heading v. 1000) example_active =
     Some (50, example_active\<lparr>mMovingAverage := \<lparr>mSampleSize = 5, mSamples = [320]\<rparr>,
             mStanley := \<lparr>mGain = 1, mLookAheadDistance = 100, mResult = 1000\<rparr>\<rparr>)"
    by (simp add: example_steeringStage clampSteering_def)
  have e: "\<not> mat_empty (mFrame example_active)"
    by (simp add: example_active_fields example_frame_fields)
  have d: "drive 50 (speedControl 50
         (example_active\<lparr>mMovingAverage := \<lparr>mSampleSize = 5, mSamples = [320]\<rparr>,
             mStanley := \<lparr>mGain = 1, mLookAheadDistance = 100, mResult = 1000\<rparr>\<rparr>)) =
       Some (example_active\<lparr>mMovingAverage := \<lparr>mSampleSize = 5, mSamples = [320]\<rparr>,
             mStanley := \<lparr>mGain = 1, mLookAheadDistance = 100, mResult = 1000\<rparr>,
             mXycarSpeed := 8, mPublisher := [\<lparr>angle = 50, speed = 8\<rparr>]\<rparr>)"
    by (simp add: drive_eq speedControl_def Let_def example_active_fields std_round_def
        in_int32_def)
  from steering_clamped [OF h] h e d show ?thesis
    by (simp add: stanley_getResult_def)
qed

text \<open>
  C5. While the frame is empty an iteration changes nothing: the state after the loop body is
  the state before it (no sample in the filter, the same speed, the same stored Stanley
  result, nothing published). This holds for any number of iterations in which no image
  arrives, and the iterations that follow start from the unchanged state.
\<close>

theorem idle_cycles_skip:
  assumes "mat_empty (mFrame s)"
  shows "loop_body kLimit getLanePosition law s = Some s
    \<and> run kLimit getLanePosition law (replicate n []) s = Some s
    \<and> run kLimit getLanePosition law (replicate n [] @ iterations) s =
        run kLimit getLanePosition law iterations s"
  using assms run_idle [of s kLimit getLanePosition law n "[]"]
    run_idle [of s kLimit getLanePosition law n iterations]
  by (simp add: loop_body_def)

theorem idle_cycles_skip_witness:
  "mat_empty (mFrame example_idle)
   \<and> loop_body 50 example_detector example_law example_idle = Some example_idle
   \<and> run 50 example_detector example_law (replicate 3 []) example_idle = Some example_idle
   \<and> mPublisher example_idle = [] \<and> mSamples (mMovingAverage example_idle) = []"
proof -
  have h: "mat_empty (mFrame example_idle)"
    by (simp add: example_idle_def LaneKeepingSystem_def setParams_def Let_def mat_default_def
        mat_empty_def)
  have "mPublisher example_idle = []" "mSamples (mMovingAverage example_idle) = []"
    by (simp_all add: example_idle_def LaneKeepingSystem_def setParams_def Let_def
        MovingAverageFilter_def)
  with idle_cycles_skip [OF h, of 50 example_detector example_law 3 "[]"] h
  show ?thesis by simp
qed

text \<open>
  C6. In an iteration with a frame, exactly one message is appended to what was published.
  Its angle is the clamped steering angle of this iteration, \<open>max (- limit) (min result limit)\<close>,
  rounded to the nearest integer (halves away from zero), and its speed is the rounded speed
  after this iteration's \<^verbatim>\<open>speedControl\<close>, which ran on the clamped steering angle before
  \<^verbatim>\<open>drive\<close>. The iteration has this result exactly when both rounded values fit the
  32-bit fields of the message.
\<close>

theorem active_cycle_publishes:
  assumes "\<not> mat_empty (mFrame s)"
    and "steeringStage kLimit getLanePosition law s = Some (steeringAngle, s2)"
  shows "let newSpeed =
           (if \<bar>steeringAngle\<bar> > mXycarSpeedControlThreshold s
            then max (mXycarSpeed s - mDecelerationStep s) (mXycarMinSpeed s)
            else min (mXycarSpeed s + mAccelerationStep s) (mXycarMaxSpeed s));
         a = (if 0 \<le> steeringAngle then \<lfloor>steeringAngle + 1 / 2\<rfloor>
              else \<lceil>steeringAngle - 1 / 2\<rceil>);
         v = (if 0 \<le> newSpeed then \<lfloor>newSpeed + 1 / 2\<rfloor> else \<lceil>newSpeed - 1 / 2\<rceil>)
     in steeringAngle =
          max (- real_of_int kLimit) (min (stanley_getResult (mStanley s2)) (real_of_int kLimit))
      \<and> \<bar>real_of_int a - steeringAngle\<bar> \<le> 1 / 2
      \<and> \<bar>real_of_int v - newSpeed\<bar> \<le> 1 / 2
      \<and> loop_body kLimit getLanePosition law s =
          (if (- 2147483648 \<le> a \<and> a \<le> 2147483647) \<and> (- 2147483648 \<le> v \<and> v \<le> 2147483647)
           then Some (s2\<lparr>mXycarSpeed := newSpeed,
                  mPublisher := mPublisher s @ [\<lparr>angle = a, speed = v\<rparr>]\<rparr>)
           else None)"
proof -
  define newSpeed where "newSpeed =
           (if \<bar>steeringAngle\<bar> > mXycarSpeedControlThreshold s
            then max (mXycarSpeed s - mDecelerationStep s) (mXycarMinSpeed s)
            else min (mXycarSpeed s + mAccelerationStep s) (mXycarMaxSpeed s))"
  have body: "loop_body kLimit getLanePosition law s =
      drive steeringAngle (speedControl steeringAngle s2)"
    using assms by (rule loop_body_active)
  have a: "steeringAngle = clampSteering kLimit (stanley_getResult (mStanley s2))"
    using assms(2) by (rule steeringStage_Some)
  have frame: "s2 = s\<lparr>mMovingAverage := mMovingAverage s2, mStanley := mStanley s2\<rparr>"
    using assms(2) by (rule steeringStage_frame)
  have same: "mXycarSpeed s2 = mXycarSpeed s" "mPublisher s2 = mPublisher s"
    "mXycarSpeedControlThreshold s2 = mXycarSpeedControlThreshold s"
    "mDecelerationStep s2 = mDecelerationStep s" "mAccelerationStep s2 = mAccelerationStep s"
    "mXycarMinSpeed s2 = mXycarMinSpeed s" "mXycarMaxSpeed s2 = mXycarMaxSpeed s"
    by (subst frame, simp)+
  have upd: "mXycarSpeed (speedControl steeringAngle s2) = newSpeed"
    by (simp add: speedControl_def Let_def same newSpeed_def)
  have sc: "speedControl steeringAngle s2 = s2\<lparr>mXycarSpeed := newSpeed\<rparr>"
    by (subst speedControl_only_speed) (simp add: upd)
  have clamp: "steeringAngle =
      max (- real_of_int kLimit) (min (stanley_getResult (mStanley s2)) (real_of_int kLimit))"
    using a by (simp add: clampSteering_def)
  have near_a: "\<bar>real_of_int (std_round steeringAngle) - steeringAngle\<bar> \<le> 1 / 2"
    and near_v: "\<bar>real_of_int (std_round newSpeed) - newSpeed\<bar> \<le> 1 / 2"
    by (rule std_round_nearest)+
  have result: "loop_body kLimit getLanePosition law s =
      (if in_int32 (std_round steeringAngle) \<and> in_int32 (std_round newSpeed)
       then Some (s2\<lparr>mXycarSpeed := newSpeed,
              mPublisher := mPublisher s @
                [\<lparr>angle = std_round steeringAngle, speed = std_round newSpeed\<rparr>]\<rparr>)
       else None)"
    by (simp add: body sc drive_eq same)
  from clamp near_a near_v result show ?thesis
    unfolding Let_def newSpeed_def [symmetric]
    by (simp only: std_round_def in_int32_def)
qed

theorem active_cycle_publishes_witness:
  "\<not> mat_empty (mFrame (example_active\<lparr>mXycarSpeed := 10, mXycarMaxSpeed := 20,
        mDecelerationStep := 13 / 5\<rparr>))
   \<and> steeringStage 50 example_detector (\<lambda>gain distance e heading v. 1000)
       (example_active\<lparr>mXycarSpeed := 10, mXycarMaxSpeed := 20, mDecelerationStep := 13 / 5\<rparr>) =
       Some (50, example_active\<lparr>mXycarSpeed := 10, mXycarMaxSpeed := 20,
             mDecelerationStep := 13 / 5,
             mMovingAverage := \<lparr>mSampleSize = 5, mSamples = [320]\<rparr>,
             mStanley := \<lparr>mGain = 1, mLookAheadDistance = 100, mResult = 1000\<rparr>\<rparr>)
   \<and> loop_body 50 example_detector (\<lambda>gain distance e heading v. 1000)
       (example_active\<lparr>mXycarSpeed := 10, mXycarMaxSpeed := 20, mDecelerationStep := 13 / 5\<rparr>) =
       Some (example_active\<lparr>mXycarSpeed := 10, mXycarMaxSpeed := 20,
             mDecelerationStep := 13 / 5,
             mMovingAverage := \<lparr>mSampleSize = 5, mSamples = [320]\<rparr>,
             mStanley := \<lparr>mGain = 1, mLookAheadDistance = 100, mResult = 1000\<rparr>,
             mXycarSpeed := 37 / 5, mPublisher := [\<lparr>angle = 50, speed = 7\<rparr>]\<rparr>)
   \<and> steeringStage 50 example_detector (\<lambda>gain distance e heading v. - 13 / 2)
       (example_active\<lparr>mXycarSpeed := 10, mXycarMaxSpeed := 20, mDecelerationStep := 13 / 5\<rparr>) =
       Some (- 13 / 2, example_active\<lparr>mXycarSpeed := 10, mXycarMaxSpeed := 20,
             mDecelerationStep := 13 / 5,
             mMovingAverage := \<lparr>mSampleSize = 5, mSamples = [320]\<rparr>,
             mStanley := \<lparr>mGain = 1, mLookAheadDistance = 100, mResult = - 13 / 2\<rparr>\<rparr>)
   \<and> loop_body 50 example_detector (\<lambda>gain distance e heading v. - 13 / 2)
       (example_active\<lparr>mXycarSpeed := 10, mXycarMaxSpeed := 20, mDecelerationStep := 13 / 5\<rparr>) =
       Some (example_active\<lparr>mXycarSpeed := 10, mXycarMaxSpeed := 20,
             mDecelerationStep := 13 / 5,
             mMovingAverage := \<lparr>mSampleSize = 5, mSamples = [320]\<rparr>,
             mStanley := \<lparr>mGain = 1, mLookAheadDistance = 100, mResult = - 13 / 2\<rparr>,
             mXycarSpeed := 37 / 5, mPublisher := [\<lparr>angle = - 7, speed = 7\<rparr>]\<rparr>)
   \<and> \<not> mat_empty (mFrame (example_active\<lparr>mXycarSpeed := 3000000000,
        mXycarMaxSpeed := 4000000000, mDecelerationStep := 2\<rparr>))
   \<and> steeringStage 50 example_detector (\<lambda>gain distance e heading v. 0)
       (example_active\<lparr>mXycarSpeed := 3000000000, mXycarMaxSpeed := 4000000000,
          mDecelerationStep := 2\<rparr>) =
       Some (0, example_active\<lparr>mXycarSpeed := 3000000000, mXycarMaxSpeed := 4000000000,
             mDecelerationStep := 2,
             mMovingAverage := \<lparr>mSampleSize = 5, mSamples = [320]\<rparr>,
             mStanley := \<lparr>mGain = 1, mLookAheadDistance = 100, mResult = 0\<rparr>\<rparr>)
   \<and> loop_body 50 example_detector (\<lambda>gain distance e heading v. 0)
       (example_active\<lparr>mXycarSpeed := 3000000000, mXycarMaxSpeed := 4000000000,
          mDecelerationStep := 2\<rparr>) = None"
proof -
  let ?s = "example_active\<lparr>mXycarSpeed := 10, mXycarMaxSpeed := 20, mDecelerationStep := 13 / 5\<rparr>"
  let ?t = "example_active\<lparr>mXycarSpeed := 3000000000, mXycarMaxSpeed := 4000000000,
          mDecelerationStep := 2\<rparr>"
  have e: "\<not> mat_empty (mFrame ?s)" "\<not> mat_empty (mFrame ?t)"
    by (simp_all add: example_active_fields example_frame_fields)
  have h1: "steeringStage 50 example_detector (\<lambda>gain distance e heading v. 1000) ?s =
       Some (50, example_active\<lparr>mXycarSpeed := 10, mXycarMaxSpeed := 20,
             mDecelerationStep := 13 / 5,
             mMovingAverage := \<lparr>mSampleSize = 5, mSamples = [320]\<rparr>,
             mStanley := \<lparr>mGain = 1, mLookAheadDistance = 100, mResult = 1000\<rparr>\<rparr>)"
    by (simp add: example_steeringStage_upd clampSteering_def)
  have h2: "steeringStage 50 example_detector (\<lambda>gain distance e heading v. - 13 / 2) ?s =
       Some (- 13 / 2, example_active\<lparr>mXycarSpeed := 10, mXycarMaxSpeed := 20,
             mDecelerationStep := 13 / 5,
             mMovingAverage := \<lparr>mSampleSize = 5, mSamples = [320]\<rparr>,
             mStanley := \<lparr>mGain = 1, mLookAheadDistance = 100, mResult = - 13 / 2\<rparr>\<rparr>)"
    by (simp add: example_steeringStage_upd clampSteering_def)
  have h3: "steeringStage 50 example_detector (\<lambda>gain distance e heading v. 0) ?t =
       Some (0, example_active\<lparr>mXycarSpeed := 3000000000, mXycarMaxSpeed := 4000000000,
             mDecelerationStep := 2,
             mMovingAverage := \<lparr>mSampleSize = 5, mSamples = [320]\<rparr>,
             mStanley := \<lparr>mGain = 1, mLookAheadDistance = 100, mResult = 0\<rparr>\<rparr>)"
    by (simp add: example_steeringStage_upd clampSteering_def)
  have r1: "loop_body 50 example_detector (\<lambda>gain distance e heading v. 1000) ?s =
       Some (example_active\<lparr>mXycarSpeed := 10, mXycarMaxSpeed := 20,
             mDecelerationStep := 13 / 5,
             mMovingAverage := \<lparr>mSampleSize = 5, mSamples = [320]\<rparr>,
             mStanley := \<lparr>mGain = 1, mLookAheadDistance = 100, mResult = 1000\<rparr>,
             mXycarSpeed := 37 / 5, mPublisher := [\<lparr>angle = 50, speed = 7\<rparr>]\<rparr>)"
    using active_cycle_publishes [OF e(1) h1]
    by (simp add: Let_def example_active_fields)
  have r2: "loop_body 50 example_detector (\<lambda>gain distance e heading v. - 13 / 2) ?s =
       Some (example_active\<lparr>mXycarSpeed := 10, mXycarMaxSpeed := 20,
             mDecelerationStep := 13 / 5,
             mMovingAverage := \<lparr>mSampleSize = 5, mSamples = [320]\<rparr>,
             mStanley := \<lparr>mGain = 1, mLookAheadDistance = 100, mResult = - 13 / 2\<rparr>,
             mXycarSpeed := 37 / 5, mPublisher := [\<lparr>angle = - 7, speed = 7\<rparr>]\<rparr>)"
    using active_cycle_publishes [OF e(1) h2]
    by (simp add: Let_def example_active_fields)
  have r3: "loop_body 50 example_detector (\<lambda>gain distance e heading v. 0) ?t = None"
    using active_cycle_publishes [OF e(2) h3]
    by (simp add: Let_def example_active_fields)
  from e h1 h2 h3 r1 r2 r3 show ?thesis by blast
qed

text \<open>
  C4, as stated: the estimated position used for the error is the filter's mean rounded to the
  nearest integer. The code converts with \<^verbatim>\<open>static_cast<int32_t>\<close>, which truncates: with
  the history \<open>[320]\<close> and the new sample 321 the mean is 320.5, the estimated position is
  320 and the error is 6, where rounding would give 321 and 7.
\<close>

theorem estimated_position_round_counterexample:
  "map_option fst (estimatePosition 321 321
       (example_active\<lparr>mMovingAverage := \<lparr>mSampleSize = 5, mSamples = [320]\<rparr>\<rparr>)) = Some 320
   \<and> getResult (addSample 321 \<lparr>mSampleSize = 5, mSamples = [320]\<rparr>) = 641 / 2
   \<and> std_round (getResult (addSample 321 \<lparr>mSampleSize = 5, mSamples = [320]\<rparr>)) = 321
   \<and> map_option fst (steeringStage 50 (\<lambda>frame. (321, 321)) example_law
       (example_active\<lparr>mMovingAverage := \<lparr>mSampleSize = 5, mSamples = [320]\<rparr>\<rparr>)) = Some 6
   \<and> errorFromMid 321 (mFrame example_active) = Some 7"
proof (intro conjI)
  show "map_option fst (estimatePosition 321 321
       (example_active\<lparr>mMovingAverage := \<lparr>mSampleSize = 5, mSamples = [320]\<rparr>\<rparr>)) = Some 320"
    by (simp add: example_estimatePosition)
  show "getResult (addSample 321 \<lparr>mSampleSize = 5, mSamples = [320]\<rparr>) = 641 / 2"
    by (simp add: getResult_def addSample_def)
  show "std_round (getResult (addSample 321 \<lparr>mSampleSize = 5, mSamples = [320]\<rparr>)) = 321"
    by (simp add: std_round_def getResult_def addSample_def)
  show "errorFromMid 321 (mFrame example_active) = Some 7"
    by (simp add: errorFromMid_eq in_int32_def half_int32_def example_active_fields
        example_frame_fields)
  have "errorFromMid 320 example_frame = Some 6"
    by (simp add: errorFromMid_eq in_int32_def half_int32_def example_frame_fields)
  then show "map_option fst (steeringStage 50 (\<lambda>frame. (321, 321)) example_law
       (example_active\<lparr>mMovingAverage := \<lparr>mSampleSize = 5, mSamples = [320]\<rparr>\<rparr>)) = Some 6"
    by (simp add: steeringStage_def example_estimatePosition example_active_fields
        calculateSteeringAngle_def stanley_getResult_def example_law_def clampSteering_def)
qed

text \<open>
  C4, amended: in every iteration with a frame, after \<^verbatim>\<open>addSample\<close> has taken the midpoint
  sample of this iteration, the estimated position used for the error is the filter's mean
  truncated towards zero (not rounded).
\<close>

theorem estimated_position_truncates:
  assumes "steeringStage kLimit getLanePosition law s = Some (steeringAngle, s2)"
  shows "mMovingAverage s2 =
        addSample (half_int32 (fst (getLanePosition (mFrame s)) + snd (getLanePosition (mFrame s))))
          (mMovingAverage s)
    \<and> estimatePosition (fst (getLanePosition (mFrame s))) (snd (getLanePosition (mFrame s))) s =
        Some (trunc (getResult (mMovingAverage s2)), s\<lparr>mMovingAverage := mMovingAverage s2\<rparr>)
    \<and> errorFromMid (trunc (getResult (mMovingAverage s2))) (mFrame s) =
        Some (trunc (getResult (mMovingAverage s2)) - half_int32 (cols (mFrame s)) + 6)
    \<and> stanley_getResult (mStanley s2) =
        law (mGain (mStanley s)) (mLookAheadDistance (mStanley s))
          (trunc (getResult (mMovingAverage s2)) - half_int32 (cols (mFrame s)) + 6)
          0 (mXycarSpeed s)"
proof -
  let ?l = "fst (getLanePosition (mFrame s))" and ?r = "snd (getLanePosition (mFrame s))"
  from assms obtain est s1 e where
    est: "estimatePosition ?l ?r s = Some (est, s1)"
    and e: "errorFromMid est (mFrame s) = Some e"
    and s2: "s2 = s1\<lparr>mStanley := calculateSteeringAngle law e 0 (mXycarSpeed s) (mStanley s)\<rparr>"
    by (rule steeringStage_Some)
  have s1: "s1 = s\<lparr>mMovingAverage := addSample (half_int32 (?l + ?r)) (mMovingAverage s)\<rparr>"
    using est by (rule estimatePosition_Some)
  have est_eq: "est = trunc (getResult (mMovingAverage s1))"
    using est by (rule estimatePosition_Some)
  have avg: "mMovingAverage s2 = mMovingAverage s1"
    by (simp add: s2)
  have avg1: "mMovingAverage s1 = addSample (half_int32 (?l + ?r)) (mMovingAverage s)"
    by (subst s1) simp
  have e_eq: "e = est - half_int32 (cols (mFrame s)) + 6"
    using e by (simp add: errorFromMid_eq split: if_splits)
  have res: "stanley_getResult (mStanley s2) =
      law (mGain (mStanley s)) (mLookAheadDistance (mStanley s)) e 0 (mXycarSpeed s)"
    by (simp add: s2 stanley_getResult_def calculateSteeringAngle_def)
  have "estimatePosition ?l ?r s =
      Some (trunc (getResult (mMovingAverage s2)), s\<lparr>mMovingAverage := mMovingAverage s2\<rparr>)"
    using est est_eq s1 avg avg1 by simp
  then show ?thesis
    using avg avg1 e e_eq est_eq res by simp
qed

theorem estimated_position_truncates_witness:
  "steeringStage 50 (\<lambda>frame. (321, 321)) example_law
       (example_active\<lparr>mMovingAverage := \<lparr>mSampleSize = 5, mSamples = [320]\<rparr>\<rparr>) =
     Some (6, example_active\<lparr>mMovingAverage := \<lparr>mSampleSize = 5, mSamples = [320, 321]\<rparr>,
             mStanley := \<lparr>mGain = 1, mLookAheadDistance = 100, mResult = 6\<rparr>\<rparr>)
   \<and> trunc (getResult \<lparr>mSampleSize = 5, mSamples = [320, 321]\<rparr>) = 320
   \<and> errorFromMid (trunc (getResult \<lparr>mSampleSize = 5, mSamples = [320, 321]\<rparr>))
        (mFrame example_active) = Some 6"
proof -
  have err: "errorFromMid 320 example_frame = Some 6"
    by (simp add: errorFromMid_eq in_int32_def half_int32_def example_frame_fields)
  have h: "steeringStage 50 (\<lambda>frame. (321, 321)) example_law
       (example_active\<lparr>mMovingAverage := \<lparr>mSampleSize = 5, mSamples = [320]\<rparr>\<rparr>) =
     Some (6, example_active\<lparr>mMovingAverage := \<lparr>mSampleSize = 5, mSamples = [320, 321]\<rparr>,
             mStanley := \<lparr>mGain = 1, mLookAheadDistance = 100, mResult = 6\<rparr>\<rparr>)"
    using err
    by (simp add: steeringStage_def example_estimatePosition example_active_fields
        calculateSteeringAngle_def stanley_getResult_def example_law_def clampSteering_def)
  have t: "trunc (getResult \<lparr>mSampleSize = 5, mSamples = [320, 321]\<rparr>) = 320"
    by (simp add: trunc_def getResult_def)
  from estimated_position_truncates [OF h] h t show ?thesis
    by (simp add: example_active_fields example_frame_fields addSample_def half_int32_def)
qed

text \<open>
  C7. Frame width 640, left position 200, right position 440, offset 6, no samples in the
  filter: the sample added is 320, the filter's result after this one sample is 320, and the
  error is \<open>320 - 320 + 6 = 6\<close>, which is what the steering law receives.
\<close>

theorem scenario_640:
  "lanePositionSample 200 440 = Some 320
   \<and> getResult (addSample 320 (MovingAverageFilter n)) = 320
   \<and> estimatePosition 200 440 (s\<lparr>mMovingAverage := MovingAverageFilter n\<rparr>) =
       Some (320, s\<lparr>mMovingAverage := addSample 320 (MovingAverageFilter n)\<rparr>)
   \<and> errorFromMid 320 (frame\<lparr>cols := 640\<rparr>) = Some (320 - 320 + 6)
   \<and> errorFromMid 320 (frame\<lparr>cols := 640\<rparr>) = Some 6
   \<and> map_option (\<lambda>(steeringAngle, s2). stanley_getResult (mStanley s2))
       (steeringStage kLimit (\<lambda>frame. (200, 440)) law
          (s\<lparr>mFrame := frame\<lparr>cols := 640\<rparr>, mMovingAverage := MovingAverageFilter n\<rparr>)) =
       Some (law (mGain (mStanley s)) (mLookAheadDistance (mStanley s)) 6 0 (mXycarSpeed s))"
proof -
  have sample: "lanePositionSample 200 440 = Some 320"
    by (simp add: lanePositionSample_eq in_int32_def half_int32_def)
  have mean: "getResult (addSample 320 (MovingAverageFilter n)) = 320"
    by (simp add: getResult_def addSample_def MovingAverageFilter_def)
  have est: "estimatePosition 200 440 (t\<lparr>mMovingAverage := MovingAverageFilter n\<rparr>) =
       Some (320, t\<lparr>mMovingAverage := addSample 320 (MovingAverageFilter n)\<rparr>)"
    for t :: lane_keeping_system
    by (simp add: estimatePosition_def sample mean static_cast_int32_def int32_of_def
        in_int32_def trunc_def Let_def)
  have err: "errorFromMid 320 (frame\<lparr>cols := 640\<rparr>) = Some 6"
    by (simp add: errorFromMid_eq in_int32_def half_int32_def)
  have "steeringStage kLimit (\<lambda>frame. (200, 440)) law
          (s\<lparr>mFrame := frame\<lparr>cols := 640\<rparr>, mMovingAverage := MovingAverageFilter n\<rparr>) =
        Some (clampSteering kLimit
               (law (mGain (mStanley s)) (mLookAheadDistance (mStanley s)) 6 0 (mXycarSpeed s)),
              s\<lparr>mFrame := frame\<lparr>cols := 640\<rparr>,
                mMovingAverage := addSample 320 (MovingAverageFilter n),
                mStanley := (mStanley s)\<lparr>mResult :=
                  law (mGain (mStanley s)) (mLookAheadDistance (mStanley s)) 6 0 (mXycarSpeed s)\<rparr>\<rparr>)"
    using est [of "s\<lparr>mFrame := frame\<lparr>cols := 640\<rparr>\<rparr>"] err
    by (simp add: steeringStage_def calculateSteeringAngle_def stanley_getResult_def)
  with sample mean est [of s] err show ?thesis
    by (simp add: stanley_getResult_def)
qed

text \<open>
  C9. The sample given to the filter is \<open>(leftX + rightX) / 2\<close> truncated to an integer (for
  an odd sum the half is dropped), and the frame centre in the error is \<open>cols / 2\<close>
  truncated, which is the floor for a non-negative width.
\<close>

theorem midpoint_truncates:
  "lanePositionSample l r =
     (if in_int32 (l + r) then Some (trunc (real_of_int (l + r) / 2)) else None)
   \<and> (estimatePosition l r s = Some (est, s1) \<longrightarrow>
        mMovingAverage s1 = addSample (trunc (real_of_int (l + r) / 2)) (mMovingAverage s))
   \<and> errorFromMid c frame =
       (if in_int32 (c - trunc (real_of_int (cols frame) / 2))
           \<and> in_int32 (c - trunc (real_of_int (cols frame) / 2) + 6)
        then Some (c - trunc (real_of_int (cols frame) / 2) + 6) else None)
   \<and> (0 \<le> cols frame \<longrightarrow>
        trunc (real_of_int (cols frame) / 2) = \<lfloor>real_of_int (cols frame) / 2\<rfloor>)
   \<and> lanePositionSample 200 441 = Some 320
   \<and> lanePositionSample (- 3) 0 = Some (- 1)
   \<and> errorFromMid 320 (frame\<lparr>cols := 641\<rparr>) = Some 6"
proof -
  have "estimatePosition l r s = Some (est, s1) \<longrightarrow>
      mMovingAverage s1 = addSample (trunc (real_of_int (l + r) / 2)) (mMovingAverage s)"
  proof
    assume "estimatePosition l r s = Some (est, s1)"
    then have "s1 = s\<lparr>mMovingAverage := addSample (half_int32 (l + r)) (mMovingAverage s)\<rparr>"
      by (rule estimatePosition_Some)
    then show "mMovingAverage s1 =
        addSample (trunc (real_of_int (l + r) / 2)) (mMovingAverage s)"
      by (simp add: half_int32_trunc)
  qed
  moreover have "lanePositionSample l r =
      (if in_int32 (l + r) then Some (trunc (real_of_int (l + r) / 2)) else None)"
    by (simp add: lanePositionSample_eq half_int32_trunc)
  moreover have "errorFromMid c frame =
       (if in_int32 (c - trunc (real_of_int (cols frame) / 2))
           \<and> in_int32 (c - trunc (real_of_int (cols frame) / 2) + 6)
        then Some (c - trunc (real_of_int (cols frame) / 2) + 6) else None)"
    by (simp add: errorFromMid_eq half_int32_trunc)
  moreover have "0 \<le> cols frame \<longrightarrow>
      trunc (real_of_int (cols frame) / 2) = \<lfloor>real_of_int (cols frame) / 2\<rfloor>"
    by (simp add: trunc_def)
  moreover have "lanePositionSample 200 441 = Some 320" "lanePositionSample (- 3) 0 = Some (- 1)"
    by (simp_all add: lanePositionSample_eq in_int32_def half_int32_def)
  moreover have "errorFromMid 320 (frame\<lparr>cols := 641\<rparr>) = Some 6"
    by (simp add: errorFromMid_eq in_int32_def half_int32_def)
  ultimately show ?thesis by blast
qed

theorem midpoint_truncates_witness:
  "estimatePosition 321 321 (example_active\<lparr>mMovingAverage := \<lparr>mSampleSize = 5, mSamples = [320]\<rparr>\<rparr>)
     = Some (320, example_active\<lparr>mMovingAverage := \<lparr>mSampleSize = 5, mSamples = [320, 321]\<rparr>\<rparr>)
   \<and> \<lparr>mSampleSize = 5, mSamples = [320, 321]\<rparr> =
       addSample (trunc (real_of_int (321 + 321) / 2)) \<lparr>mSampleSize = 5, mSamples = [320]\<rparr>
   \<and> 0 \<le> cols example_frame
   \<and> trunc (real_of_int (cols example_frame) / 2) = \<lfloor>real_of_int (cols example_frame) / 2\<rfloor>
   \<and> \<lfloor>real_of_int (cols example_frame) / 2\<rfloor> = 320"
proof -
  have c: "0 \<le> cols example_frame" "\<lfloor>real_of_int (cols example_frame) / 2\<rfloor> = 320"
    by (simp_all add: example_frame_fields)
  from midpoint_truncates [of 321 321
      "example_active\<lparr>mMovingAverage := \<lparr>mSampleSize = 5, mSamples = [320]\<rparr>\<rparr>"
      320 "example_active\<lparr>mMovingAverage := \<lparr>mSampleSize = 5, mSamples = [320, 321]\<rparr>\<rparr>"
      _ example_frame]
    example_estimatePosition c
  show ?thesis by simp
qed

end
